theory Spec2Isabelle
  imports Complex_Main
begin

section \<open>Traffic prediction service: data model\<close>

text \<open>
  The service is the single module \<^verbatim>\<open>ml-service/main.py\<close>. Python ints are \<^typ>\<open>int\<close>.
  The floats read from the store are values of \<open>pyfloat\<close>, and the one computation on
  them, \<^verbatim>\<open>np.mean\<close>, is left to numpy (a parameter of the environment). The
  floats of the derived metrics (lines 195-206) are modelled as \<^typ>\<open>real\<close>, without
  rounding.
  A \<^verbatim>\<open>datetime\<close> is the number of microseconds since 0001-01-01 00:00:00, the
  resolution and the origin of Python's own type.
\<close>

subsection \<open>Exceptions\<close>

text \<open>
  \<^verbatim>\<open>HTTPException(status_code, detail)\<close> carries its detail either as a fixed text or
  as a prefix followed by \<^verbatim>\<open>str(e)\<close> of the exception it was built from.
\<close>

datatype exn =
    FileNotFoundError
  | UnpicklingError
  | AttributeError string
  | TypeError
  | OverflowError
  | RedisError
  | OSError
  | SklearnError
  | HTTPException nat detail
and detail =
    Literal string
  | Prefixed string exn

subsection \<open>Request and response models\<close>

text \<open>
  \<^verbatim>\<open>class TrafficData(BaseModel)\<close> declares exactly five fields;
  \<^verbatim>\<open>class TrafficPrediction(BaseModel)\<close> declares six (its \<^verbatim>\<open>segment_id\<close> is
  named \<open>pred_segment_id\<close> here, a field name being one constant).
\<close>

record TrafficData =
  segment_id :: string
  current_speed :: real
  congestion_factor :: real
  traffic_density :: real
  timestamp :: int

record TrafficPrediction =
  pred_segment_id :: string
  predicted_speed :: real
  predicted_congestion :: real
  prediction_time :: int
  valid_until :: int
  confidence :: real

text \<open>
  Line 184 reads \<^verbatim>\<open>current_data.weather_impact\<close>. The class declares no such field
  and a pydantic model drops undeclared keys of its input, so the attribute lookup raises
  \<^verbatim>\<open>AttributeError\<close> on every instance.
\<close>

definition weather_impact_of :: "TrafficData \<Rightarrow> exn + real" where
  "weather_impact_of current_data = Inl (AttributeError ''weather_impact'')"

subsection \<open>Stored history entries\<close>

text \<open>
  A Python float is a finite double, given by its exact value, or one of \<^verbatim>\<open>inf\<close>,
  \<^verbatim>\<open>-inf\<close> and \<^verbatim>\<open>nan\<close> (\<^verbatim>\<open>json.loads\<close> accepts \<^verbatim>\<open>Infinity\<close>,
  \<^verbatim>\<open>-Infinity\<close> and \<^verbatim>\<open>NaN\<close>). \<open>double m e\<close> is the finite double \<open>m / 2^e\<close>.
\<close>

datatype pyfloat = Finite real | PosInf | NegInf | NaN

definition double :: "int \<Rightarrow> nat \<Rightarrow> pyfloat" where
  "double m e = Finite (real_of_int m / 2 ^ e)"

text \<open>The double that the literal \<^verbatim>\<open>0.3\<close> of lines 168, 174 and 279 denotes.\<close>

definition float_0_3 :: pyfloat where
  "float_0_3 = double 5404319552844595 54"

text \<open>
  An element of a Redis list \<^verbatim>\<open>historical_traffic:{segment_id}\<close> is a byte string.
  \<^verbatim>\<open>json.loads\<close> either raises on it (\<open>Undecodable\<close>), or returns a value that is not a
  dict (\<open>NonObject\<close>, on which \<^verbatim>\<open>.get\<close> raises \<^verbatim>\<open>AttributeError\<close>), or returns
  a dict. The values of a dict are restricted to JSON scalars; arrays and nested objects
  as field values are not modelled. A JSON integer decodes to a Python int of any size.
\<close>

datatype jval = JNull | JBool bool | JInt int | JFloat pyfloat | JStr string

datatype entry =
    Undecodable
  | NonObject
  | Object "string \<Rightarrow> jval option"

text \<open>\<^verbatim>\<open>d.get(key, default)\<close> of a Python dict.\<close>

definition dict_get :: "(string \<Rightarrow> jval option) \<Rightarrow> string \<Rightarrow> jval \<Rightarrow> jval" where
  "dict_get d k dflt = (case d k of None \<Rightarrow> dflt | Some v \<Rightarrow> v)"

subsection \<open>Time\<close>

text \<open>
  \<^verbatim>\<open>datetime.max\<close> is 9999-12-31 23:59:59.999999; adding a \<^verbatim>\<open>timedelta\<close> beyond it
  raises \<^verbatim>\<open>OverflowError\<close>. Day 1 of the calendar is a Monday, \<^verbatim>\<open>weekday()\<close> 0.
\<close>

definition datetime_max :: int where
  "datetime_max = 315537897599999999"

definition timedelta_minutes :: "int \<Rightarrow> int" where
  "timedelta_minutes m = m * 60000000"

definition datetime_add :: "int \<Rightarrow> int \<Rightarrow> exn + int" where
  "datetime_add t d =
     (if 0 \<le> t + d \<and> t + d \<le> datetime_max then Inr (t + d) else Inl OverflowError)"

definition hour_of :: "int \<Rightarrow> int" where
  "hour_of t = (t div 3600000000) mod 24"

definition weekday_of :: "int \<Rightarrow> int" where
  "weekday_of t = (t div 86400000000) mod 7"

subsection \<open>Estimator and Scaler\<close>

text \<open>
  A row of \<^verbatim>\<open>training_data\<close> (lines 274-281); the three values read from the stored
  dict are kept as they were decoded.
\<close>

record training_row =
  row_hour_of_day :: int
  row_day_of_week :: int
  row_weather_impact :: jval
  row_base_speed_limit :: real
  row_historical_congestion :: jval
  row_current_speed :: jval

text \<open>
  scikit-learn is outside the module, so a fitted object is represented by what it was
  fitted on. \<open>SampleData seed n\<close> is the synthetic data set of lines 103-122 (\<open>n\<close> rows
  drawn after \<^verbatim>\<open>np.random.seed(seed)\<close>); \<open>Rows rs\<close> is a data set made of the given
  rows. \<open>TrainPart\<close> and \<open>TestPart\<close> are the two parts returned by
  \<^verbatim>\<open>train_test_split(X, y, test_size=0.2, random_state=42)\<close>. A \<open>StandardScaler p\<close>
  was fitted on the features of \<open>p\<close>; a \<open>RandomForestRegressor s p\<close> was fitted on the
  features of \<open>p\<close> scaled by \<open>s\<close>, against the targets of \<open>p\<close>.
\<close>

datatype dataset = SampleData nat nat | Rows "training_row list"

datatype partition = TrainPart dataset | TestPart dataset

datatype scaler_obj = StandardScaler partition

datatype estimator = RandomForestRegressor scaler_obj partition

text \<open>What a path of the file system holds, as \<^verbatim>\<open>joblib.load\<close> sees it.\<close>

datatype 'a artifact = Missing | Corrupt | Stored 'a

definition joblib_load :: "'a artifact \<Rightarrow> exn + 'a" where
  "joblib_load f =
     (case f of
        Missing \<Rightarrow> Inl FileNotFoundError
      | Corrupt \<Rightarrow> Inl UnpicklingError
      | Stored x \<Rightarrow> Inr x)"

subsection \<open>Process state and environment\<close>

text \<open>
  \<open>traffic_model\<close> and \<open>scaler\<close> are the two module globals (\<^verbatim>\<open>None\<close> at import).
  The rest is the environment: the two artifact paths under \<^verbatim>\<open>/app/models\<close>, the Redis
  lists by key, and the clock (one reading per operation). Redis, the file system, numpy
  and scikit-learn are outside the module: \<open>redis_error\<close>, when set, is raised by
  every read of Redis, \<open>fs_error\<close> by \<^verbatim>\<open>os.makedirs\<close>; \<open>float_mean\<close> is what
  \<^verbatim>\<open>np.mean\<close> does with a list of numbers and booleans (its float64 arithmetic, and
  its \<^verbatim>\<open>OverflowError\<close> on an integer beyond the range of a float);
  \<open>transform\<close> and \<open>predict\<close> are \<^verbatim>\<open>scaler.transform\<close> and
  \<^verbatim>\<open>traffic_model.predict(...)[0]\<close>, the prediction of a forest being a finite
  float.
\<close>

record world =
  traffic_model :: "estimator option"
  scaler :: "scaler_obj option"
  model_file :: "estimator artifact"
  scaler_file :: "scaler_obj artifact"
  redis_lists :: "(string \<times> entry list) list"
  now :: int
  redis_error :: "exn option"
  fs_error :: "exn option"
  float_mean :: "jval list \<Rightarrow> exn + pyfloat"
  transform :: "scaler_obj \<Rightarrow> pyfloat list \<Rightarrow> exn + pyfloat list"
  predict :: "estimator \<Rightarrow> pyfloat list \<Rightarrow> exn + real"

text \<open>\<^verbatim>\<open>redis_client.lrange(key, 0, -1)\<close>: a key that does not exist gives the empty list.\<close>

definition lrange :: "world \<Rightarrow> string \<Rightarrow> exn + entry list" where
  "lrange w key =
     (case redis_error w of
        Some e \<Rightarrow> Inl e
      | None \<Rightarrow> Inr (case map_of (redis_lists w) key of None \<Rightarrow> [] | Some es \<Rightarrow> es))"

text \<open>
  The handlers \<^verbatim>\<open>except Exception as e: raise HTTPException(status_code=500,
  detail=f"...: {str(e)}")\<close> of lines 221-223, 259-261 and 293-295.
\<close>

definition except_500 :: "string \<Rightarrow> (exn + 'a) \<times> world \<Rightarrow> (exn + 'a) \<times> world" where
  "except_500 msg r =
     (case fst r of
        Inl e \<Rightarrow> (Inl (HTTPException 500 (Prefixed msg e)), snd r)
      | Inr v \<Rightarrow> (Inr v, snd r))"

subsection \<open>History aggregation (lines 167-178)\<close>

text \<open>
  The loop of lines 171-176: an entry whose decoding or whose \<^verbatim>\<open>.get\<close> raises is passed
  over by the bare \<^verbatim>\<open>except: continue\<close>; a dict contributes its
  \<^verbatim>\<open>congestion_factor\<close>, or 0.3 when it has none.
\<close>

fun congestion_values :: "entry list \<Rightarrow> jval list" where
  "congestion_values [] = []"
| "congestion_values (Undecodable # ds) = congestion_values ds"
| "congestion_values (NonObject # ds) = congestion_values ds"
| "congestion_values (Object d # ds) =
     dict_get d ''congestion_factor'' (JFloat float_0_3) # congestion_values ds"

text \<open>
  \<^verbatim>\<open>np.mean\<close> of a non-empty Python list of JSON scalars: a string or \<^verbatim>\<open>None\<close> among
  them makes numpy raise a \<^verbatim>\<open>TypeError\<close>; a list of numbers and booleans is numpy's
  own business.
\<close>

fun has_non_number :: "jval list \<Rightarrow> bool" where
  "has_non_number [] = False"
| "has_non_number (JNull # vs) = True"
| "has_non_number (JStr s # vs) = True"
| "has_non_number (v # vs) = has_non_number vs"

definition np_mean :: "world \<Rightarrow> jval list \<Rightarrow> exn + pyfloat" where
  "np_mean w vs = (if has_non_number vs then Inl TypeError else float_mean w vs)"

text \<open>
  Lines 168-178: the default 0.3 stays when the list from Redis is empty or when no
  value was collected.
\<close>

definition avg_historical_congestion :: "world \<Rightarrow> entry list \<Rightarrow> exn + pyfloat" where
  "avg_historical_congestion w historical_data =
     (if historical_data \<noteq> [] then
        (let vs = congestion_values historical_data in
         if vs \<noteq> [] then np_mean w vs else Inr float_0_3)
      else Inr float_0_3)"

section \<open>Operations\<close>

subsection \<open>train_new_model (lines 100-147)\<close>

text \<open>
  The function takes no argument: it draws 1000 synthetic rows after
  \<^verbatim>\<open>np.random.seed(42)\<close>, splits them, fits a scaler on the train part and a forest
  on the scaled train part, writes both to disk and returns them. \<open>scaler\<close> and
  \<open>model\<close> are local names; the function has no \<^verbatim>\<open>global\<close> statement and assigns
  neither module global.
\<close>

definition train_new_model :: "world \<Rightarrow> (exn + estimator \<times> scaler_obj) \<times> world" where
  "train_new_model w =
     (let train = TrainPart (SampleData 42 1000);
          scaler_local = StandardScaler train;
          model = RandomForestRegressor scaler_local train
      in case fs_error w of
           Some e \<Rightarrow> (Inl e, w)
         | None \<Rightarrow>
             (Inr (model, scaler_local),
              w\<lparr>model_file := Stored model, scaler_file := Stored scaler_local\<rparr>))"

subsection \<open>initialize_model (lines 88-98)\<close>

text \<open>
  The first \<^verbatim>\<open>joblib.load\<close> assigns the global \<open>traffic_model\<close> before the second is
  tried. Only \<^verbatim>\<open>FileNotFoundError\<close> is handled, and the handler calls
  \<^verbatim>\<open>train_new_model()\<close> as a statement: the returned pair is dropped.
\<close>

definition initialize_model :: "world \<Rightarrow> (exn + unit) \<times> world" where
  "initialize_model w =
     (case joblib_load (model_file w) of
        Inr m \<Rightarrow>
          (let w1 = w\<lparr>traffic_model := Some m\<rparr> in
           case joblib_load (scaler_file w1) of
             Inr s \<Rightarrow> (Inr (), w1\<lparr>scaler := Some s\<rparr>)
           | Inl FileNotFoundError \<Rightarrow>
               (case train_new_model w1 of
                  (Inl e, w2) \<Rightarrow> (Inl e, w2)
                | (Inr _, w2) \<Rightarrow> (Inr (), w2))
           | Inl e \<Rightarrow> (Inl e, w1))
      | Inl FileNotFoundError \<Rightarrow>
          (case train_new_model w of
             (Inl e, w2) \<Rightarrow> (Inl e, w2)
           | (Inr _, w2) \<Rightarrow> (Inr (), w2))
      | Inl e \<Rightarrow> (Inl e, w))"

text \<open>The startup hook (lines 228-231) only calls \<open>initialize_model\<close>.\<close>

definition startup_event :: "world \<Rightarrow> (exn + unit) \<times> world" where
  "startup_event w = initialize_model w"

subsection \<open>predict_traffic (lines 150-223)\<close>

text \<open>
  Lines 195-207: the congestion and the confidence derived from the predicted speed, and the
  \<^verbatim>\<open>TrafficPrediction\<close> built from them.
\<close>

definition build_prediction :: "string \<Rightarrow> real \<Rightarrow> int \<Rightarrow> exn + TrafficPrediction" where
  "build_prediction seg speed current_time =
     (let base_speed = 50;
          congestion = max 0 (min 1 ((base_speed - speed) / base_speed))
      in case datetime_add current_time (timedelta_minutes 30) of
           Inl e \<Rightarrow> Inl e
         | Inr until \<Rightarrow>
             Inr \<lparr>pred_segment_id = seg,
                  predicted_speed = speed,
                  predicted_congestion = congestion,
                  prediction_time = current_time,
                  valid_until = until,
                  confidence = min 0.95 (max 0.5 (1 - \<bar>congestion - 0.5\<bar>))\<rparr>)"

text \<open>
  Lines 209-215: the cache write
  \<^verbatim>\<open>redis_client.setex(prediction_key, prediction.json(), ex=1800)\<close>. The method of
  the Redis client is \<^verbatim>\<open>setex(name, time, value)\<close> and has no parameter \<^verbatim>\<open>ex\<close>, so
  the call raises \<^verbatim>\<open>TypeError\<close> when its arguments are bound, whatever they are, and
  nothing is sent to Redis.
\<close>

definition cache_prediction :: "string \<Rightarrow> TrafficPrediction \<Rightarrow> exn + unit" where
  "cache_prediction seg prediction = Inl TypeError"

text \<open>
  Lines 180-219, from the feature vector to the \<^verbatim>\<open>return\<close>, given the value read for
  \<^verbatim>\<open>weather_impact\<close>. Nothing here catches: any exception leaves the \<^verbatim>\<open>try\<close> body.
\<close>

definition predict_from_features ::
  "world \<Rightarrow> estimator \<Rightarrow> scaler_obj \<Rightarrow> string \<Rightarrow> int \<Rightarrow> real \<Rightarrow> pyfloat
     \<Rightarrow> (exn + TrafficPrediction) \<times> world" where
  "predict_from_features w m s seg current_time weather avg =
     (let features = [Finite (real_of_int (hour_of current_time)),
                      Finite (real_of_int (weekday_of current_time)),
                      Finite weather, Finite 50, avg]
      in case transform w s features of
           Inl e \<Rightarrow> (Inl e, w)
         | Inr features_scaled \<Rightarrow>
             (case predict w m features_scaled of
                Inl e \<Rightarrow> (Inl e, w)
              | Inr speed \<Rightarrow>
                  (case build_prediction seg speed current_time of
                     Inl e \<Rightarrow> (Inl e, w)
                   | Inr prediction \<Rightarrow>
                       (case cache_prediction seg prediction of
                          Inl e \<Rightarrow> (Inl e, w)
                        | Inr _ \<Rightarrow> (Inr prediction, w)))))"

text \<open>The body of the \<^verbatim>\<open>try\<close> (lines 158-219).\<close>

definition predict_body ::
  "world \<Rightarrow> estimator \<Rightarrow> scaler_obj \<Rightarrow> string \<Rightarrow> TrafficData
     \<Rightarrow> (exn + TrafficPrediction) \<times> world" where
  "predict_body w m s seg current_data =
     (let current_time = now w in
      case lrange w (''historical_traffic:'' @ seg) of
        Inl e \<Rightarrow> (Inl e, w)
      | Inr historical_data \<Rightarrow>
          (case avg_historical_congestion w historical_data of
             Inl e \<Rightarrow> (Inl e, w)
           | Inr avg \<Rightarrow>
               (case weather_impact_of current_data of
                  Inl e \<Rightarrow> (Inl e, w)
                | Inr weather \<Rightarrow> predict_from_features w m s seg current_time weather avg)))"

definition predict_traffic ::
  "world \<Rightarrow> string \<Rightarrow> TrafficData \<Rightarrow> (exn + TrafficPrediction) \<times> world" where
  "predict_traffic w seg current_data =
     (case traffic_model w of
        None \<Rightarrow> (Inl (HTTPException 500 (Literal ''ML model not loaded'')), w)
      | Some m \<Rightarrow>
          (case scaler w of
             None \<Rightarrow> (Inl (HTTPException 500 (Literal ''ML model not loaded'')), w)
           | Some s \<Rightarrow> except_500 ''Prediction failed: '' (predict_body w m s seg current_data)))"

text \<open>
  \<^verbatim>\<open>POST /predict/traffic\<close> (lines 237-247): an \<^verbatim>\<open>HTTPException\<close> is raised again as it
  is, any other exception becomes a 500.
\<close>

definition predict_traffic_endpoint ::
  "world \<Rightarrow> TrafficData \<Rightarrow> (exn + TrafficPrediction) \<times> world" where
  "predict_traffic_endpoint w traffic_data =
     (case predict_traffic w (segment_id traffic_data) traffic_data of
        (Inl (HTTPException c d), w') \<Rightarrow> (Inl (HTTPException c d), w')
      | (Inl e, w') \<Rightarrow> (Inl (HTTPException 500 (Literal ''Internal server error'')), w')
      | (Inr prediction, w') \<Rightarrow> (Inr prediction, w'))"

subsection \<open>predict_batch_traffic (lines 249-261)\<close>

record batch_response =
  predictions :: "TrafficPrediction list"
  count :: nat

text \<open>
  The \<^verbatim>\<open>for\<close> loop of lines 254-256, with the predictor as a parameter; the first
  exception ends it and the list built so far is lost with the frame.
\<close>

fun batch_loop ::
  "(world \<Rightarrow> string \<Rightarrow> TrafficData \<Rightarrow> (exn + TrafficPrediction) \<times> world)
     \<Rightarrow> world \<Rightarrow> TrafficData list \<Rightarrow> TrafficPrediction list
     \<Rightarrow> (exn + TrafficPrediction list) \<times> world" where
  "batch_loop f w [] acc = (Inr acc, w)"
| "batch_loop f w (traffic_data # rest) acc =
     (case f w (segment_id traffic_data) traffic_data of
        (Inl e, w') \<Rightarrow> (Inl e, w')
      | (Inr prediction, w') \<Rightarrow> batch_loop f w' rest (acc @ [prediction]))"

definition predict_batch_with ::
  "(world \<Rightarrow> string \<Rightarrow> TrafficData \<Rightarrow> (exn + TrafficPrediction) \<times> world)
     \<Rightarrow> world \<Rightarrow> TrafficData list \<Rightarrow> (exn + batch_response) \<times> world" where
  "predict_batch_with f w traffic_data_list =
     except_500 ''Batch prediction failed: ''
       (case batch_loop f w traffic_data_list [] of
          (Inl e, w') \<Rightarrow> (Inl e, w')
        | (Inr ps, w') \<Rightarrow> (Inr \<lparr>predictions = ps, count = length ps\<rparr>, w'))"

definition predict_batch_traffic ::
  "world \<Rightarrow> TrafficData list \<Rightarrow> (exn + batch_response) \<times> world" where
  "predict_batch_traffic w traffic_data_list =
     predict_batch_with predict_traffic w traffic_data_list"

subsection \<open>train_model_endpoint (lines 263-295)\<close>

text \<open>The inner loop of lines 271-283 over the entries of one list.\<close>

fun rows_of_entries :: "int \<Rightarrow> entry list \<Rightarrow> training_row list" where
  "rows_of_entries t [] = []"
| "rows_of_entries t (Undecodable # ds) = rows_of_entries t ds"
| "rows_of_entries t (NonObject # ds) = rows_of_entries t ds"
| "rows_of_entries t (Object d # ds) =
     \<lparr>row_hour_of_day = hour_of t,
      row_day_of_week = weekday_of t,
      row_weather_impact = dict_get d ''weather_impact'' (JInt 0),
      row_base_speed_limit = 50,
      row_historical_congestion = dict_get d ''congestion_factor'' (JFloat float_0_3),
      row_current_speed = dict_get d ''current_speed'' (JFloat (Finite 25))\<rparr> # rows_of_entries t ds"

text \<open>
  The outer loop of lines 269-283: \<^verbatim>\<open>scan_iter(match="historical_traffic:*")\<close> yields
  the keys with that prefix.
\<close>

fun collect_training_data :: "int \<Rightarrow> (string \<times> entry list) list \<Rightarrow> training_row list" where
  "collect_training_data t [] = []"
| "collect_training_data t ((key, data_list) # rest) =
     (if take 19 key = ''historical_traffic:''
      then rows_of_entries t data_list @ collect_training_data t rest
      else collect_training_data t rest)"

record train_response =
  message :: string
  samples_used :: nat

text \<open>
  The body of the \<^verbatim>\<open>try\<close> (lines 267-292). The 400 is raised inside it;
  \<open>training_data\<close> is counted and then not used again: \<^verbatim>\<open>train_new_model()\<close> is called
  without arguments.
\<close>

definition train_body :: "world \<Rightarrow> (exn + train_response) \<times> world" where
  "train_body w =
     (case redis_error w of
        Some e \<Rightarrow> (Inl e, w)
      | None \<Rightarrow>
          (let training_data = collect_training_data (now w) (redis_lists w) in
           if length training_data < 100 then
             (Inl (HTTPException 400
                (Literal ''Insufficient training data (need at least 100 samples)'')), w)
           else
             (case train_new_model w of
                (Inl e, w') \<Rightarrow> (Inl e, w')
              | (Inr (m, s), w') \<Rightarrow>
                  (Inr \<lparr>message = ''Model retrained successfully'',
                        samples_used = length training_data\<rparr>,
                   w'\<lparr>traffic_model := Some m, scaler := Some s\<rparr>))))"

text \<open>
  The only handler of the endpoint is \<^verbatim>\<open>except Exception\<close> (lines 293-295), and
  \<^verbatim>\<open>HTTPException\<close> is an \<^verbatim>\<open>Exception\<close>.
\<close>

definition train_model_endpoint :: "world \<Rightarrow> (exn + train_response) \<times> world" where
  "train_model_endpoint w = except_500 ''Model training failed: '' (train_body w)"

section \<open>Notions of the specification\<close>


text \<open>
  The specification's matched pair: both globals absent, or an estimator together with
  the scaler of its own fit.
\<close>

fun matched_pair :: "estimator option \<Rightarrow> scaler_obj option \<Rightarrow> bool" where
  "matched_pair None None = True"
| "matched_pair (Some (RandomForestRegressor s p)) (Some s') = (s = s')"
| "matched_pair _ _ = False"


section \<open>Concrete states and inputs\<close>

text \<open>The pair that \<open>train_new_model\<close> fits, whatever the state.\<close>

definition synthetic_scaler :: scaler_obj where
  "synthetic_scaler = StandardScaler (TrainPart (SampleData 42 1000))"

definition synthetic_model :: estimator where
  "synthetic_model = RandomForestRegressor synthetic_scaler (TrainPart (SampleData 42 1000))"

text \<open>An older matched pair, as a previous run could have left it on disk.\<close>

definition s0 :: scaler_obj where
  "s0 = StandardScaler (TrainPart (SampleData 7 10))"

definition m0 :: estimator where
  "m0 = RandomForestRegressor (StandardScaler (TrainPart (SampleData 7 10)))
          (TrainPart (SampleData 7 10))"

text \<open>
  The mean of a list that holds one float is that float (the sum and the division by 1
  are exact); this is all the sample states below need of \<^verbatim>\<open>np.mean\<close>, and on any
  other list the function here is only a placeholder.
\<close>

fun mean_of_one :: "jval list \<Rightarrow> exn + pyfloat" where
  "mean_of_one [JFloat x] = Inr x"
| "mean_of_one vs = Inr NaN"

text \<open>
  A running service with \<open>m0\<close> and \<open>s0\<close> loaded, an identity scaler and an estimator
  that answers \<open>speed\<close>; the clock reads a moment of the year 2025.
\<close>

definition sample_world :: "real \<Rightarrow> exn option \<Rightarrow> (string \<times> entry list) list \<Rightarrow> world" where
  "sample_world speed redis_err stored =
     \<lparr>traffic_model = Some m0, scaler = Some s0,
      model_file = Stored m0, scaler_file = Stored s0,
      redis_lists = stored, now = 63900000000000000,
      redis_error = redis_err, fs_error = None,
      float_mean = mean_of_one,
      transform = (\<lambda>s xs. Inr xs), predict = (\<lambda>m xs. Inr speed)\<rparr>"

text \<open>A process just imported: both globals \<^verbatim>\<open>None\<close>, the two paths as given.\<close>

definition fresh_world ::
  "estimator artifact \<Rightarrow> scaler_obj artifact \<Rightarrow> (string \<times> entry list) list \<Rightarrow> world" where
  "fresh_world mf sf stored =
     \<lparr>traffic_model = None, scaler = None,
      model_file = mf, scaler_file = sf,
      redis_lists = stored, now = 63900000000000000,
      redis_error = None, fs_error = None,
      float_mean = mean_of_one,
      transform = (\<lambda>s xs. Inr xs), predict = (\<lambda>m xs. Inr 30)\<rparr>"

definition observation :: "string \<Rightarrow> TrafficData" where
  "observation seg =
     \<lparr>segment_id = seg, current_speed = 32, congestion_factor = 0.4,
      traffic_density = 12, timestamp = 63900000000000000\<rparr>"

text \<open>A stored record with speed 10 and congestion 0.8 (the double of that literal).\<close>

definition stored_record :: entry where
  "stored_record =
     Object [''current_speed'' \<mapsto> JInt 10,
             ''congestion_factor'' \<mapsto> JFloat (double 7205759403792794 53)]"

text \<open>A predictor that always succeeds, to exercise the batch loop.\<close>

definition stub_prediction :: "TrafficData \<Rightarrow> TrafficPrediction" where
  "stub_prediction d =
     \<lparr>pred_segment_id = segment_id d, predicted_speed = 30, predicted_congestion = 0.4,
      prediction_time = 63900000000000000, valid_until = 63900001800000000,
      confidence = 0.9\<rparr>"

definition stub_predict ::
  "world \<Rightarrow> string \<Rightarrow> TrafficData \<Rightarrow> (exn + TrafficPrediction) \<times> world" where
  "stub_predict w seg d = (Inr (stub_prediction d), w)"

section \<open>Shared lemmas\<close>









section \<open>Derived metrics and freshness\<close>

text \<open>
  Lines 195-207 are the one place of the module where a \<^verbatim>\<open>TrafficPrediction\<close> is
  built, from the segment, the predicted speed and the clock reading of line 159;
  \<open>build_prediction\<close> is these lines. They sit behind line 184, which raises on
  every \<^verbatim>\<open>TrafficData\<close> (see \<open>predict_traffic\<close> below), so the properties of
  the predictions are those of this construction.
\<close>






section \<open>History aggregation\<close>





section \<open>Prediction\<close>

lemma predict_body_fails: "\<exists>e. predict_body w m s seg d = (Inl e, w)"
  by (simp add: predict_body_def weather_impact_of_def Let_def split: sum.splits)

lemma predict_traffic_never_Inr: "\<not> (\<exists>p. fst (predict_traffic w seg d) = Inr p)"
proof (cases "traffic_model w")
  case None
  then show ?thesis by (simp add: predict_traffic_def)
next
  case (Some m)
  show ?thesis
  proof (cases "scaler w")
    case None
    with Some show ?thesis by (simp add: predict_traffic_def)
  next
    case (Some s)
    obtain e where "predict_body w m s seg d = (Inl e, w)"
      using predict_body_fails by blast
    with Some \<open>traffic_model w = Some m\<close> show ?thesis
      by (simp add: predict_traffic_def except_500_def)
  qed
qed

text \<open>
  Claim C1. Whenever both \<open>traffic_model\<close> and \<open>scaler\<close> are loaded,
  \<open>predict_traffic\<close> returns no prediction: an exception is raised inside the
  \<^verbatim>\<open>try\<close> and converted to an HTTP 500, the state being left as it was. When the
  history is read and averaged without error, the exception is the
  \<^verbatim>\<open>AttributeError\<close> of \<^verbatim>\<open>current_data.weather_impact\<close>.
\<close>

theorem predict_traffic_always_500:
  assumes "traffic_model w = Some m" and "scaler w = Some s"
  shows "(\<exists>e. predict_traffic w seg d =
            (Inl (HTTPException 500 (Prefixed ''Prediction failed: '' e)), w))
       \<and> \<not> (\<exists>p. fst (predict_traffic w seg d) = Inr p)
       \<and> (lrange w (''historical_traffic:'' @ seg) = Inr hist
            \<and> avg_historical_congestion w hist = Inr avg \<longrightarrow>
          predict_traffic w seg d =
            (Inl (HTTPException 500
               (Prefixed ''Prediction failed: '' (AttributeError ''weather_impact''))), w))"
proof -
  obtain e where "predict_body w m s seg d = (Inl e, w)"
    using predict_body_fails by blast
  with assms have a: "\<exists>e. predict_traffic w seg d =
            (Inl (HTTPException 500 (Prefixed ''Prediction failed: '' e)), w)"
    by (simp add: predict_traffic_def except_500_def)
  have c: "lrange w (''historical_traffic:'' @ seg) = Inr hist
            \<and> avg_historical_congestion w hist = Inr avg \<longrightarrow>
          predict_traffic w seg d =
            (Inl (HTTPException 500
               (Prefixed ''Prediction failed: '' (AttributeError ''weather_impact''))), w)"
    using assms
    by (simp add: predict_traffic_def except_500_def predict_body_def weather_impact_of_def)
  show ?thesis using a c predict_traffic_never_Inr by blast
qed

text \<open>Witness for C1: a loaded service with one stored record for segment A1.\<close>

theorem predict_traffic_always_500_witness:
  "traffic_model (sample_world 30 None [(''historical_traffic:A1'', [stored_record])]) = Some m0
   \<and> scaler (sample_world 30 None [(''historical_traffic:A1'', [stored_record])]) = Some s0
   \<and> lrange (sample_world 30 None [(''historical_traffic:A1'', [stored_record])])
        (''historical_traffic:'' @ ''A1'') = Inr [stored_record]
   \<and> avg_historical_congestion
        (sample_world 30 None [(''historical_traffic:A1'', [stored_record])])
        [stored_record] = Inr (double 7205759403792794 53)
   \<and> fst (predict_traffic (sample_world 30 None [(''historical_traffic:A1'', [stored_record])])
        ''A1'' (observation ''A1'')) =
       Inl (HTTPException 500
         (Prefixed ''Prediction failed: '' (AttributeError ''weather_impact'')))"
proof -
  let ?w = "sample_world 30 None [(''historical_traffic:A1'', [stored_record])]"
  have h1: "traffic_model ?w = Some m0" by (simp add: sample_world_def)
  have h2: "scaler ?w = Some s0" by (simp add: sample_world_def)
  have h3: "lrange ?w (''historical_traffic:'' @ ''A1'') = Inr [stored_record]"
    by (simp add: lrange_def sample_world_def)
  have h4: "avg_historical_congestion ?w [stored_record] = Inr (double 7205759403792794 53)"
    by (simp add: avg_historical_congestion_def np_mean_def dict_get_def stored_record_def
          sample_world_def)
  show ?thesis
    using h1 h2 h3 h4
      predict_traffic_always_500 [OF h1 h2, where seg = "''A1''" and hist = "[stored_record]"
        and avg = "double 7205759403792794 53" and d = "observation ''A1''"]
    by simp
qed

section \<open>Batch prediction\<close>

lemma batch_loop_length:
  "fst (batch_loop f w ds acc) = Inr ps \<Longrightarrow> length ps = length acc + length ds"
proof (induction ds arbitrary: w acc)
  case Nil
  then show ?case by simp
next
  case (Cons d ds)
  then show ?case by (auto split: prod.splits sum.splits)
qed

lemma batch_loop_append:
  "batch_loop f w (pre @ post) acc =
     (case batch_loop f w pre acc of
        (Inl e, w') \<Rightarrow> (Inl e, w')
      | (Inr ps, w') \<Rightarrow> batch_loop f w' post ps)"
proof (induction pre arbitrary: w acc)
  case Nil
  then show ?case by simp
next
  case (Cons d pre)
  then show ?case by (simp split: prod.splits sum.splits)
qed

lemma batch_loop_all:
  "(\<And>w d. d \<in> set ds \<Longrightarrow> fst (f w (segment_id d) d) = Inr (h d)) \<Longrightarrow>
     fst (batch_loop f w ds acc) = Inr (acc @ map h ds)"
proof (induction ds arbitrary: w acc)
  case Nil
  then show ?case by simp
next
  case (Cons d ds)
  have "fst (f w (segment_id d) d) = Inr (h d)" using Cons.prems by simp
  then obtain w' where "f w (segment_id d) d = (Inr (h d), w')"
    by (cases "f w (segment_id d) d") simp
  moreover have "fst (batch_loop f w' ds (acc @ [h d])) = Inr ((acc @ [h d]) @ map h ds)"
    using Cons.IH Cons.prems by simp
  ultimately show ?case by simp
qed

lemma predict_batch_with_fst:
  "fst (predict_batch_with f w ds) =
     (case fst (batch_loop f w ds []) of
        Inl e \<Rightarrow> Inl (HTTPException 500 (Prefixed ''Batch prediction failed: '' e))
      | Inr ps \<Rightarrow> Inr \<lparr>predictions = ps, count = length ps\<rparr>)"
  by (simp add: predict_batch_with_def except_500_def split: prod.splits sum.splits)

text \<open>
  Claim C9. \<open>predict_batch_traffic\<close> is the sequential loop over \<open>predict_traffic\<close>.
  Whatever the predictor: a successful call returns as many predictions as there are
  observations, with \<open>count\<close> equal to that number; if the elements before one are
  predicted and that one raises, the whole call fails with an HTTP 500 and no predictions
  are reported; and if every element is predicted, the predictions are returned in order.
\<close>
theorem batch_all_or_nothing:
  "predict_batch_traffic w ds = predict_batch_with predict_traffic w ds
   \<and> (fst (predict_batch_with f w ds) = Inr r \<longrightarrow>
        count r = length ds \<and> length (predictions r) = length ds)
   \<and> (batch_loop f w pre [] = (Inr ps, w') \<and> fst (f w' (segment_id d) d) = Inl e \<longrightarrow>
        fst (predict_batch_with f w (pre @ d # post)) =
          Inl (HTTPException 500 (Prefixed ''Batch prediction failed: '' e)))
   \<and> ((\<forall>w d. d \<in> set ds \<longrightarrow> fst (f w (segment_id d) d) = Inr (h d)) \<longrightarrow>
        fst (predict_batch_with f w ds) = Inr \<lparr>predictions = map h ds, count = length ds\<rparr>)"
proof (intro conjI impI)
  show "predict_batch_traffic w ds = predict_batch_with predict_traffic w ds"
    by (simp add: predict_batch_traffic_def)
next
  assume "fst (predict_batch_with f w ds) = Inr r"
  then obtain qs where q: "fst (batch_loop f w ds []) = Inr qs"
    and r: "r = \<lparr>predictions = qs, count = length qs\<rparr>"
    by (auto simp: predict_batch_with_fst split: sum.splits)
  from batch_loop_length [OF q] r show "count r = length ds" by simp
  from batch_loop_length [OF q] r show "length (predictions r) = length ds" by simp
next
  assume a: "batch_loop f w pre [] = (Inr ps, w') \<and> fst (f w' (segment_id d) d) = Inl e"
  then obtain w'' where "f w' (segment_id d) d = (Inl e, w'')"
    by (cases "f w' (segment_id d) d") simp
  with a have "batch_loop f w (pre @ d # post) [] = (Inl e, w'')"
    by (simp add: batch_loop_append)
  then show "fst (predict_batch_with f w (pre @ d # post)) =
      Inl (HTTPException 500 (Prefixed ''Batch prediction failed: '' e))"
    by (simp add: predict_batch_with_fst)
next
  assume "\<forall>w d. d \<in> set ds \<longrightarrow> fst (f w (segment_id d) d) = Inr (h d)"
  then have "fst (batch_loop f w ds []) = Inr ([] @ map h ds)"
    by (intro batch_loop_all) simp
  then show "fst (predict_batch_with f w ds) = Inr \<lparr>predictions = map h ds, count = length ds\<rparr>"
    by (simp add: predict_batch_with_fst)
qed

text \<open>
  Witness for C9: two observations with a predictor that succeeds, and the same two with
  \<open>predict_traffic\<close>, which raises on the first.
\<close>

theorem batch_all_or_nothing_witness:
  "fst (predict_batch_with stub_predict (sample_world 30 None [])
          [observation ''A1'', observation ''B7'']) =
     Inr \<lparr>predictions = [stub_prediction (observation ''A1''), stub_prediction (observation ''B7'')],
          count = 2\<rparr>
   \<and> batch_loop predict_traffic (sample_world 30 None []) [] [] =
       (Inr [], sample_world 30 None [])
   \<and> fst (predict_traffic (sample_world 30 None []) (segment_id (observation ''A1''))
          (observation ''A1'')) =
       Inl (HTTPException 500
         (Prefixed ''Prediction failed: '' (AttributeError ''weather_impact'')))
   \<and> fst (predict_batch_traffic (sample_world 30 None [])
          [observation ''A1'', observation ''B7'']) =
       Inl (HTTPException 500 (Prefixed ''Batch prediction failed: ''
         (HTTPException 500
           (Prefixed ''Prediction failed: '' (AttributeError ''weather_impact'')))))"
proof -
  let ?w = "sample_world 30 None []"
  let ?ds = "[observation ''A1'', observation ''B7'']"
  let ?e = "HTTPException 500
         (Prefixed ''Prediction failed: '' (AttributeError ''weather_impact''))"
  have h1: "fst (predict_batch_with stub_predict ?w ?ds) =
     Inr \<lparr>predictions = [stub_prediction (observation ''A1''), stub_prediction (observation ''B7'')],
          count = 2\<rparr>"
    by (simp add: predict_batch_with_def except_500_def stub_predict_def)
  have h2: "batch_loop predict_traffic ?w [] [] = (Inr [], ?w)" by simp
  have h3: "fst (predict_traffic ?w (segment_id (observation ''A1'')) (observation ''A1'')) = Inl ?e"
    by (simp add: predict_traffic_def except_500_def predict_body_def weather_impact_of_def
          lrange_def avg_historical_congestion_def sample_world_def)
  have h4: "\<forall>w d. d \<in> set ?ds \<longrightarrow>
      fst (stub_predict w (segment_id d) d) = Inr (stub_prediction d)"
    by (simp add: stub_predict_def)
  note t1 = batch_all_or_nothing [where f = stub_predict and w = ?w and ds = ?ds
      and h = stub_prediction
      and r = "\<lparr>predictions = [stub_prediction (observation ''A1''),
                 stub_prediction (observation ''B7'')], count = 2\<rparr>"]
  note t2 = batch_all_or_nothing [where f = predict_traffic and w = ?w and ds = ?ds
      and pre = "[]" and ps = "[]" and w' = ?w and d = "observation ''A1''" and e = ?e
      and post = "[observation ''B7'']"]
  show ?thesis using h1 h2 h3 h4 t1 t2 by simp
qed

section \<open>Startup and retraining\<close>

lemma rows_of_entries_length_replicate:
  "length (rows_of_entries t (replicate n (Object d))) = n"
  by (induction n) simp_all

lemma train_new_model_ok:
  "fs_error w = None \<Longrightarrow>
     train_new_model w =
       (Inr (synthetic_model, synthetic_scaler),
        w\<lparr>model_file := Stored synthetic_model, scaler_file := Stored synthetic_scaler\<rparr>)"
  by (simp add: train_new_model_def synthetic_model_def synthetic_scaler_def Let_def)

text \<open>
  Claim C4 says that after startup both globals are loaded. At a start with neither
  artifact on disk, \<open>startup_event\<close> completes, both artifacts are written, and both
  globals are still \<^verbatim>\<open>None\<close>.
\<close>
theorem startup_without_artifacts_loads_nothing:
  "fst (startup_event (fresh_world Missing Missing [])) = Inr ()
   \<and> traffic_model (snd (startup_event (fresh_world Missing Missing []))) = None
   \<and> scaler (snd (startup_event (fresh_world Missing Missing []))) = None
   \<and> model_file (snd (startup_event (fresh_world Missing Missing []))) = Stored synthetic_model
   \<and> scaler_file (snd (startup_event (fresh_world Missing Missing []))) = Stored synthetic_scaler"
  by (simp add: startup_event_def initialize_model_def joblib_load_def train_new_model_ok
        fresh_world_def)

text \<open>
  Claim C6 says that every operation leaves the globals a matched pair. At a start with
  the model artifact on disk and the scaler artifact missing, the globals are matched
  before \<open>startup_event\<close> and after it \<open>traffic_model\<close> is loaded while \<open>scaler\<close>
  is \<^verbatim>\<open>None\<close>.
\<close>
theorem startup_with_model_file_only_unmatched:
  "matched_pair (traffic_model (fresh_world (Stored m0) Missing []))
        (scaler (fresh_world (Stored m0) Missing []))
   \<and> fst (startup_event (fresh_world (Stored m0) Missing [])) = Inr ()
   \<and> traffic_model (snd (startup_event (fresh_world (Stored m0) Missing []))) = Some m0
   \<and> scaler (snd (startup_event (fresh_world (Stored m0) Missing []))) = None
   \<and> \<not> matched_pair (traffic_model (snd (startup_event (fresh_world (Stored m0) Missing []))))
        (scaler (snd (startup_event (fresh_world (Stored m0) Missing []))))"
  by (simp add: startup_event_def initialize_model_def joblib_load_def train_new_model_ok
        fresh_world_def m0_def)

text \<open>
  Claim C5 says that a retrain with fewer than 100 samples is reported as a 400. With 99
  stored records the 400 raised at line 286 is caught at line 293 and the caller gets a
  500; with 100 records the retrain succeeds.
\<close>
theorem retrain_99_samples_reports_500:
  "length (collect_training_data 63900000000000000
      [(''historical_traffic:A1'', replicate 99 stored_record)]) = 99
   \<and> fst (train_model_endpoint
      (sample_world 30 None [(''historical_traffic:A1'', replicate 99 stored_record)])) =
     Inl (HTTPException 500 (Prefixed ''Model training failed: ''
       (HTTPException 400 (Literal ''Insufficient training data (need at least 100 samples)''))))
   \<and> fst (train_model_endpoint
      (sample_world 30 None [(''historical_traffic:A1'', replicate 100 stored_record)])) =
     Inr \<lparr>message = ''Model retrained successfully'', samples_used = 100\<rparr>"
  unfolding train_model_endpoint_def train_body_def stored_record_def
  by (simp add: except_500_def rows_of_entries_length_replicate train_new_model_ok
        sample_world_def Let_def)

text \<open>
  Claim C3 says that the retrain fits the scaler and the estimator on the rows aggregated
  from the store. With 100 stored records the retrain succeeds and reports 100 samples
  used, and the pair it installs is the one fitted on the synthetic sample data, not one
  fitted on the aggregated rows.
\<close>
theorem retrain_fits_synthetic_data:
  "fst (train_model_endpoint
      (sample_world 30 None [(''historical_traffic:A1'', replicate 100 stored_record)])) =
     Inr \<lparr>message = ''Model retrained successfully'', samples_used = 100\<rparr>
   \<and> scaler (snd (train_model_endpoint
      (sample_world 30 None [(''historical_traffic:A1'', replicate 100 stored_record)]))) =
     Some (StandardScaler (TrainPart (SampleData 42 1000)))
   \<and> traffic_model (snd (train_model_endpoint
      (sample_world 30 None [(''historical_traffic:A1'', replicate 100 stored_record)]))) =
     Some (RandomForestRegressor (StandardScaler (TrainPart (SampleData 42 1000)))
        (TrainPart (SampleData 42 1000)))
   \<and> traffic_model (snd (train_model_endpoint
      (sample_world 30 None [(''historical_traffic:A1'', replicate 100 stored_record)]))) \<noteq>
     Some (RandomForestRegressor
        (StandardScaler (TrainPart (Rows (collect_training_data 63900000000000000
           [(''historical_traffic:A1'', replicate 100 stored_record)]))))
        (TrainPart (Rows (collect_training_data 63900000000000000
           [(''historical_traffic:A1'', replicate 100 stored_record)]))))"
  unfolding train_model_endpoint_def train_body_def stored_record_def
  by (simp add: except_500_def rows_of_entries_length_replicate train_new_model_ok
        sample_world_def Let_def synthetic_model_def synthetic_scaler_def)

end
